theory Spec2Isabelle
  imports Complex_Main "HOL-Library.Char_ord" "HOL-Library.List_Lexorder" "HOL-Library.Option_ord"
begin

section \<open>Python values used by the backend\<close>

text \<open>
  A Python \<open>str\<close> whose characters lie below U+0100 is a \<^typ>\<open>string\<close>; on that range
  the regular expression class \<open>\d\<close> matches exactly \<open>0\<close>..\<open>9\<close>. Comparison of two
  \<open>str\<close> values is lexicographic by code point with a proper prefix smaller, which is the
  order of \<open>HOL-Library.List_Lexorder\<close> over \<open>HOL-Library.Char_ord\<close>. Python integers
  are unbounded: \<^typ>\<open>int\<close>.
\<close>

datatype py_error = ValueError | OverflowError | TypeError

definition is_digit :: "char \<Rightarrow> bool" where
  "is_digit c = (CHR ''0'' \<le> c \<and> c \<le> CHR ''9'')"

definition digit_val :: "char \<Rightarrow> nat" where
  "digit_val c = of_char c - 48"

definition digit_char :: "nat \<Rightarrow> char" where
  "digit_char d = ''0123456789'' ! d"

text \<open>
  The interpreter's \<open>Py_ISSPACE\<close>: tab, line feed, vertical tab, form feed, carriage
  return and space.
\<close>

definition is_ascii_space :: "char \<Rightarrow> bool" where
  "is_ascii_space c = (c \<in> set [CHR 0x09, CHR 0x0A, CHR 0x0B, CHR 0x0C, CHR 0x0D, CHR '' ''])"

text \<open>
  The white space that \<open>int()\<close> skips at both ends of its argument. A character below
  U+007F is kept as it is and skipped when it is \<open>Py_ISSPACE\<close>; of the characters from
  U+007F to U+00FF the two Unicode spaces U+0085 and U+00A0 are first turned into a
  space. (The separators U+001C..U+001F are white space for \<open>str.isspace\<close>, not here.)
\<close>

definition is_space :: "char \<Rightarrow> bool" where
  "is_space c = (is_ascii_space c \<or> c = CHR 0x85 \<or> c = CHR 0xA0)"

definition strip :: "string \<Rightarrow> string" where
  "strip s = rev (dropWhile is_space (rev (dropWhile is_space s)))"

definition digits_val :: "string \<Rightarrow> nat" where
  "digits_val s = foldl (\<lambda>acc c. 10 * acc + digit_val c) 0 s"

text \<open>
  The digits of a decimal literal as \<open>int()\<close> reads them: at least one digit, and single
  underscores between digits.
\<close>

fun digits_ok :: "string \<Rightarrow> bool" where
  "digits_ok [] = False"
| "digits_ok [c] = is_digit c"
| "digits_ok (c # d # cs) =
     (is_digit c \<and> (if d = CHR ''_'' then digits_ok cs else digits_ok (d # cs)))"

text \<open>
  \<open>int(s)\<close> on a \<open>str\<close>, base ten: white space at both ends, an optional sign, then
  the digits; anything else raises \<open>ValueError\<close>.
\<close>

definition py_int :: "string \<Rightarrow> py_error + int" where
  "py_int s =
     (let t = strip s;
          (negative, body) = (case t of
                                [] \<Rightarrow> (False, t)
                              | c # cs \<Rightarrow> if c = CHR ''-'' then (True, cs)
                                          else if c = CHR ''+'' then (False, cs)
                                          else (False, t))
      in if digits_ok body
         then Inr ((if negative then - 1 else 1) * int (digits_val (filter is_digit body)))
         else Inl ValueError)"

fun str_nat :: "nat \<Rightarrow> string" where
  "str_nat n = (if n < 10 then [digit_char n] else str_nat (n div 10) @ [digit_char (n mod 10)])"

declare str_nat.simps [simp del]

text \<open>\<open>f"{i}"\<close> and \<open>f"{i:02d}"\<close> (sign-aware zero padding to width two).\<close>

definition str_int :: "int \<Rightarrow> string" where
  "str_int i = (if i < 0 then CHR ''-'' # str_nat (nat (- i)) else str_nat (nat i))"

definition fmt_02d :: "int \<Rightarrow> string" where
  "fmt_02d i = (if i < 0 then CHR ''-'' # str_nat (nat (- i))
                else replicate (2 - length (str_nat (nat i))) CHR ''0'' @ str_nat (nat i))"

text \<open>\<open>s.split('-W')\<close>: the pieces between the non-overlapping occurrences, left to right.\<close>

fun split_W :: "string \<Rightarrow> string list" where
  "split_W [] = [[]]"
| "split_W [c] = [[c]]"
| "split_W (c # d # cs) =
     (if c = CHR ''-'' \<and> d = CHR ''W'' then [] # split_W cs
      else (case split_W (d # cs) of p # ps \<Rightarrow> (c # p) # ps | [] \<Rightarrow> [[c]]))"

text \<open>\<open>year, week = s.split('-W')\<close> followed by \<open>int\<close> on both parts.\<close>

definition parse_year_week :: "string \<Rightarrow> py_error + (int \<times> int)" where
  "parse_year_week s =
     (case split_W s of
        [ys, ws] \<Rightarrow>
          (case py_int ys of Inl e \<Rightarrow> Inl e
           | Inr year \<Rightarrow> (case py_int ws of Inl e \<Rightarrow> Inl e | Inr week \<Rightarrow> Inr (year, week)))
      | _ \<Rightarrow> Inl ValueError)"

subsection \<open>The standard library's naive \<open>datetime\<close>\<close>

text \<open>
  A naive \<open>datetime\<close> is kept as its proleptic Gregorian ordinal (\<open>toordinal()\<close>, day 1 is
  0001-01-01) and the second of the day. The functions follow the reference
  implementation of the \<open>datetime\<close> module.
\<close>

record datetime =
  ordinal :: int
  second_of_day :: int

definition MINYEAR :: int where "MINYEAR = 1"
definition MAXYEAR :: int where "MAXYEAR = 9999"

definition days_before_year :: "int \<Rightarrow> int" where
  "days_before_year year = (let y = year - 1 in y * 365 + y div 4 - y div 100 + y div 400)"

definition max_ordinal :: int where
  "max_ordinal = days_before_year (MAXYEAR + 1)"

text \<open>\<open>datetime(year, 1, 1)\<close>\<close>

definition datetime_jan_1 :: "int \<Rightarrow> py_error + datetime" where
  "datetime_jan_1 year =
     (if MINYEAR \<le> year \<and> year \<le> MAXYEAR
      then Inr \<lparr>ordinal = days_before_year year + 1, second_of_day = 0\<rparr>
      else Inl ValueError)"

definition weekday :: "datetime \<Rightarrow> int" where
  "weekday d = (ordinal d + 6) mod 7"

text \<open>\<open>d + timedelta(days=n, seconds=s)\<close>\<close>

definition add_timedelta :: "datetime \<Rightarrow> int \<Rightarrow> int \<Rightarrow> py_error + datetime" where
  "add_timedelta d days secs =
     (let total = second_of_day d + secs;
          ord' = ordinal d + days + total div 86400
      in if 0 < ord' \<and> ord' \<le> max_ordinal
         then Inr \<lparr>ordinal = ord', second_of_day = total mod 86400\<rparr>
         else Inl OverflowError)"

text \<open>The year of an ordinal (the first component of \<open>_ord2ymd\<close>).\<close>

definition year_of_ordinal :: "int \<Rightarrow> int" where
  "year_of_ordinal n0 =
     (let n = n0 - 1;
          n400 = n div 146097; n = n mod 146097;
          n100 = n div 36524; n = n mod 36524;
          n4 = n div 1461; n = n mod 1461;
          n1 = n div 365;
          year = n400 * 400 + 1 + n100 * 100 + n4 * 4 + n1
      in if n1 = 4 \<or> n100 = 4 then year - 1 else year)"

definition isoweek1monday :: "int \<Rightarrow> int" where
  "isoweek1monday year =
     (let firstday = days_before_year year + 1;
          firstweekday = (firstday + 6) mod 7;
          week1monday = firstday - firstweekday
      in if firstweekday > 3 then week1monday + 7 else week1monday)"

definition isocalendar :: "datetime \<Rightarrow> int \<times> int \<times> int" where
  "isocalendar d =
     (let year = year_of_ordinal (ordinal d);
          today = ordinal d;
          week1monday = isoweek1monday year;
          week = (today - week1monday) div 7;
          day = (today - week1monday) mod 7
      in if week < 0 then
           (let year = year - 1;
                week1monday = isoweek1monday year
            in (year, (today - week1monday) div 7 + 1, (today - week1monday) mod 7 + 1))
         else if week \<ge> 52 \<and> today \<ge> isoweek1monday (year + 1) then (year + 1, 1, day + 1)
         else (year, week + 1, day + 1))"

section \<open>\<open>app/utils/datetime_utils.py\<close>\<close>

definition iso_week_to_date_range :: "string \<Rightarrow> py_error + (datetime \<times> datetime)" where
  "iso_week_to_date_range week_iso =
     (case parse_year_week week_iso of Inl e \<Rightarrow> Inl e
      | Inr (year, week) \<Rightarrow>
     (case datetime_jan_1 year of Inl e \<Rightarrow> Inl e
      | Inr jan_1 \<Rightarrow>
        (let days_to_monday = (7 - weekday jan_1) mod 7;
             days_to_monday = (if weekday jan_1 > 3 then days_to_monday + 7 else days_to_monday)
         in case add_timedelta jan_1 days_to_monday 0 of Inl e \<Rightarrow> Inl e
            | Inr first_monday \<Rightarrow>
           (case add_timedelta first_monday (7 * (week - 1)) 0 of Inl e \<Rightarrow> Inl e
            | Inr week_start \<Rightarrow>
           (case add_timedelta week_start 6 (23 * 3600 + 59 * 60 + 59) of Inl e \<Rightarrow> Inl e
            | Inr week_end \<Rightarrow> Inr (week_start, week_end))))))"

definition date_to_iso_week :: "datetime \<Rightarrow> string" where
  "date_to_iso_week date =
     (case isocalendar date of (year, week, _) \<Rightarrow> str_int year @ ''-W'' @ fmt_02d week)"

text \<open>
  \<open>re.match(r'^\d{4}-W\d{2}$', week_iso)\<close>: \<open>$\<close> also matches just before a final
  newline.
\<close>

definition matches_week_pattern :: "string \<Rightarrow> bool" where
  "matches_week_pattern s =
     (length s = 8 \<and> list_all is_digit (take 4 s) \<and> s ! 4 = CHR ''-'' \<and> s ! 5 = CHR ''W''
      \<and> list_all is_digit (drop 6 s))"

definition validate_iso_week_format :: "string \<Rightarrow> bool" where
  "validate_iso_week_format week_iso =
     (matches_week_pattern week_iso \<or>
      (length week_iso = 9 \<and> week_iso ! 8 = CHR 0x0A \<and> matches_week_pattern (take 8 week_iso)))"

text \<open>
  The \<open>while\<close> loop of \<open>get_week_range\<close>. It need not end, so the result is an
  \<open>option\<close>: \<open>None\<close> is a loop that runs forever.
\<close>

partial_function (option) week_loop ::
  "string \<Rightarrow> string \<Rightarrow> string list \<Rightarrow> (py_error + string list) option" where
  "week_loop current_week end_week weeks =
     (if current_week \<le> end_week then
        (case parse_year_week current_week of
           Inl e \<Rightarrow> Some (Inl e)
         | Inr (year, week) \<Rightarrow>
             week_loop (if week = 52 then str_int (year + 1) @ ''-W01''
                        else str_int year @ ''-W'' @ fmt_02d (week + 1))
                       end_week (weeks @ [current_week]))
      else Some (Inr weeks))"

declare week_loop.simps [code]

definition get_week_range :: "string \<Rightarrow> string \<Rightarrow> (py_error + string list) option" where
  "get_week_range start_week end_week =
     (if \<not> validate_iso_week_format start_week \<or> \<not> validate_iso_week_format end_week
      then Some (Inl ValueError)
      else week_loop start_week end_week [])"

section \<open>Floating-point numbers\<close>

text \<open>
  A Python \<open>float\<close> and a BSON double are IEEE 754 binary64 values. A finite one is the
  real number it denotes (the two zeros are not told apart: no operation below divides
  by a float or prints one).
\<close>

datatype py_float = Finite real | PosInf | NegInf | NaN

text \<open>
  The number of bits of a non-negative integer (\<open>int.bit_length\<close>), and with it the
  exponent of a positive real \<open>x\<close>: the \<open>k\<close> with \<open>2 ^ k \<le> x < 2 ^ (k + 1)\<close>.
\<close>

function bit_length :: "int \<Rightarrow> nat" where
  "bit_length n = (if n \<le> 0 then 0 else Suc (bit_length (n div 2)))"
  by pat_completeness auto

termination bit_length
  by (relation "measure nat") auto

declare bit_length.simps [simp del]

definition floor_log2 :: "real \<Rightarrow> int" where
  "floor_log2 x = (if 1 \<le> x then int (bit_length \<lfloor>x\<rfloor>) - 1
                   else - int (bit_length (\<lceil>1 / x\<rceil> - 1)))"

definition pow2 :: "int \<Rightarrow> real" where
  "pow2 e = (if 0 \<le> e then 2 ^ nat e else 1 / 2 ^ nat (- e))"

text \<open>To the nearest integer, a tie to the even one.\<close>

definition round_half_even :: "real \<Rightarrow> int" where
  "round_half_even y =
     (let f = \<lfloor>y\<rfloor>; d = y - of_int f
      in if d < 1 / 2 then f else if 1 / 2 < d then f + 1 else if even f then f else f + 1)"

text \<open>
  The binary64 value of a real number in the default rounding mode: 53 significant
  bits, no exponent of the last place below \<open>-1074\<close> (gradual underflow), round to
  nearest with ties to even, and overflow to an infinity from \<open>2 ^ 1024\<close> on.
\<close>

definition binary64 :: "real \<Rightarrow> py_float" where
  "binary64 x =
     (if x = 0 then Finite 0
      else let e = max (floor_log2 \<bar>x\<bar> - 52) (- 1074);
               r = of_int (round_half_even (x / pow2 e)) * pow2 e
           in if 2 ^ 1024 \<le> \<bar>r\<bar> then (if 0 < x then PosInf else NegInf) else Finite r)"

text \<open>Addition of two floats.\<close>

fun float_add :: "py_float \<Rightarrow> py_float \<Rightarrow> py_float" where
  "float_add (Finite x) (Finite y) = binary64 (x + y)"
| "float_add NaN _ = NaN"
| "float_add _ NaN = NaN"
| "float_add PosInf NegInf = NaN"
| "float_add NegInf PosInf = NaN"
| "float_add PosInf _ = PosInf"
| "float_add _ PosInf = PosInf"
| "float_add NegInf _ = NegInf"
| "float_add _ NegInf = NegInf"

text \<open>
  Division of a double by a positive integer count, as the store's \<open>$divide\<close> applies it
  to a sum and the \<open>$size\<close> of a non-empty array.
\<close>

definition float_div_count :: "py_float \<Rightarrow> nat \<Rightarrow> py_float" where
  "float_div_count x n = (case x of Finite v \<Rightarrow> binary64 (v / real n) | _ \<Rightarrow> x)"

text \<open>
  \<open>round(x, 2)\<close> on a float: the exact value of \<open>x\<close> is converted to the correctly
  rounded decimal with two digits after the point (the nearest hundredth, a tie to the
  even one) and that decimal to the nearest float. Infinities and NaN are returned as
  they are.
\<close>

definition py_round2 :: "py_float \<Rightarrow> py_float" where
  "py_round2 x =
     (case x of Finite v \<Rightarrow> binary64 (of_int (round_half_even (v * 100)) / 100) | _ \<Rightarrow> x)"

text \<open>The constraint \<open>ge=0\<close> of a float field.\<close>

definition float_ge0 :: "py_float \<Rightarrow> bool" where
  "float_ge0 x = (case x of Finite v \<Rightarrow> 0 \<le> v | PosInf \<Rightarrow> True | _ \<Rightarrow> False)"

text \<open>
  The built-in \<open>sum\<close> and the store's \<open>$sum\<close> add floats with an algorithm of their own
  that is not part of this program (CPython adds from left to right up to version 3.11
  and with a compensation term from 3.12 on; the store's accumulator is compensated
  too). The handlers that add floats therefore take the summation as an argument.
  \<open>float_sum\<close> is the plain addition from left to right, starting from \<open>0\<close>.
\<close>

definition float_sum :: "py_float list \<Rightarrow> py_float" where
  "float_sum xs = foldl float_add (Finite 0) xs"




section \<open>The document store\<close>

text \<open>
  A \<open>bson.ObjectId\<close> is kept as the lower-case hexadecimal rendering of its bytes, so
  that \<open>str(oid)\<close> is the identity. The library builds one from a \<open>str\<close> of length 24
  with \<open>bytes.fromhex\<close>, which reads two hexadecimal digits per byte and skips
  \<open>Py_ISSPACE\<close> characters before a byte and at the end.
\<close>

type_synonym object_id = string
type_synonym timestamp = nat

definition is_hex :: "char \<Rightarrow> bool" where
  "is_hex c = (c \<in> set ''0123456789abcdefABCDEF'')"

definition lower_hex :: "char \<Rightarrow> char" where
  "lower_hex c = (case map_of (zip ''ABCDEF'' ''abcdef'') c of Some l \<Rightarrow> l | None \<Rightarrow> c)"

text \<open>\<open>bytes.fromhex(s)\<close>, the bytes in their hexadecimal rendering; \<open>None\<close> is \<open>ValueError\<close>.\<close>

fun fromhex :: "string \<Rightarrow> string option" where
  "fromhex [] = Some []"
| "fromhex [c] = (if is_ascii_space c then Some [] else None)"
| "fromhex (c # d # cs) =
     (if is_ascii_space c then fromhex (d # cs)
      else if is_hex c \<and> is_hex d
           then map_option (\<lambda>bytes. lower_hex c # lower_hex d # bytes) (fromhex cs)
           else None)"

definition ObjectId_is_valid :: "string \<Rightarrow> bool" where
  "ObjectId_is_valid s = (length s = 24 \<and> fromhex s \<noteq> None)"

text \<open>
  \<open>ObjectId(s)\<close> for a valid \<open>s\<close>. On any other string the library raises
  \<open>InvalidId\<close>; the handlers below test \<open>ObjectId_is_valid\<close> before they use the value.
\<close>

definition ObjectId :: "string \<Rightarrow> object_id" where
  "ObjectId s = (case fromhex s of Some bytes \<Rightarrow> bytes | None \<Rightarrow> [])"

text \<open>
  A model field of type \<open>PyObjectId\<close> (\<open>app/models/user.py\<close>). The class hands its
  \<open>validate(cls, v)\<close> to pydantic through \<open>__get_validators__\<close>. The models are written
  for pydantic 2 (\<open>field_validator\<close>, \<open>model_dump\<close>), which wraps a validator obtained
  this way as a function of the value and the validation info and calls it with both.
  \<open>validate\<close> takes the value alone, so the call raises \<open>TypeError\<close> before the body
  of \<open>validate\<close> runs: no value passes such a field. (A field that takes its value from
  \<open>default_factory\<close>, like \<open>id\<close>, is not validated.)
\<close>

definition PyObjectId_field :: "object_id \<Rightarrow> py_error + object_id" where
  "PyObjectId_field v = Inl TypeError"

text \<open>
  Documents. A key that some writers omit is an \<open>option\<close>: \<open>None\<close> is an absent key.
  Users written by \<open>UserInDB\<close> carry \<open>status\<close>, self-registered ones carry \<open>is_active\<close>.
  Reports come in two shapes in one collection: the weekly one (\<open>week_iso\<close>, \<open>tasks\<close>,
  \<open>difficulties\<close>, \<open>remarks\<close>, \<open>total_hours\<close>) and the simple one, which has none of
  these keys. \<open>hours\<close> and \<open>total_hours\<close> are floats.
\<close>

record user =
  u_id :: object_id
  u_email :: string
  u_name :: string
  u_role :: string
  u_status :: "string option"
  u_is_active :: "bool option"

record task_item =
  t_title :: string
  t_hours :: py_float
  t_notes :: "string option"
  t_project :: "string option"

record report =
  r_id :: object_id
  r_user_id :: object_id
  r_week_iso :: "string option"
  r_tasks :: "task_item list option"
  r_difficulties :: "string option option"
  r_remarks :: "string option option"
  r_total_hours :: "py_float option"
  r_status :: string
  r_created_at :: timestamp
  r_updated_at :: timestamp

record comment =
  c_id :: object_id
  c_report_id :: object_id
  c_admin_id :: object_id
  c_content :: string

record message =
  m_id :: object_id
  m_sender_id :: object_id
  m_receiver_id :: object_id
  m_subject :: "string option"
  m_content :: string
  m_read_status :: bool
  m_read_at :: "timestamp option"
  m_created_at :: timestamp

record database =
  users :: "user list"
  reports :: "report list"
  comments :: "comment list"
  messages :: "message list"

text \<open>
  The collection operations of the driver on a collection kept as the list of its
  documents in insertion order. A filter document is a predicate. An inserted document
  carries an \<open>_id\<close> that \<open>ObjectId()\<close> has just produced; the store's duplicate-key error
  is therefore not a branch.
\<close>

definition find_one :: "('a \<Rightarrow> bool) \<Rightarrow> 'a list \<Rightarrow> 'a option" where
  "find_one P xs = List.find P xs"

definition find_all :: "('a \<Rightarrow> bool) \<Rightarrow> 'a list \<Rightarrow> 'a list" where
  "find_all P xs = filter P xs"

definition insert_one :: "'a \<Rightarrow> 'a list \<Rightarrow> 'a list" where
  "insert_one x xs = xs @ [x]"

definition insert_many :: "'a list \<Rightarrow> 'a list \<Rightarrow> 'a list" where
  "insert_many ys xs = xs @ ys"

fun update_one :: "('a \<Rightarrow> bool) \<Rightarrow> ('a \<Rightarrow> 'a) \<Rightarrow> 'a list \<Rightarrow> 'a list" where
  "update_one P f [] = []"
| "update_one P f (x # xs) = (if P x then f x # xs else x # update_one P f xs)"

fun delete_one :: "('a \<Rightarrow> bool) \<Rightarrow> 'a list \<Rightarrow> 'a list" where
  "delete_one P [] = []"
| "delete_one P (x # xs) = (if P x then xs else x # delete_one P xs)"

definition delete_many :: "('a \<Rightarrow> bool) \<Rightarrow> 'a list \<Rightarrow> 'a list" where
  "delete_many P xs = filter (\<lambda>x. \<not> P x) xs"

text \<open>
  \<open>HTTPException(status_code, detail)\<close>; the detail texts are written without their
  accents.
\<close>

datatype http_exception = HTTPException nat string

section \<open>\<open>app/middleware/auth.py\<close>\<close>

text \<open>
  The dependencies receive the \<open>user_id\<close> of the verified token. \<open>ObjectId\<close> raises on a
  malformed identifier; nothing catches it there, which the framework answers with 500.
\<close>

definition get_current_user_from_db :: "database \<Rightarrow> string \<Rightarrow> http_exception + user" where
  "get_current_user_from_db db token_user_id =
     (if \<not> ObjectId_is_valid token_user_id then Inl (HTTPException 500 ''Internal Server Error'')
      else case find_one (\<lambda>u. u_id u = ObjectId token_user_id) (users db) of
             None \<Rightarrow> Inl (HTTPException 404 ''Utilisateur non trouve'')
           | Some user \<Rightarrow> Inr user)"

definition require_admin :: "database \<Rightarrow> string \<Rightarrow> http_exception + user" where
  "require_admin db token_user_id =
     (case get_current_user_from_db db token_user_id of
        Inl e \<Rightarrow> Inl e
      | Inr current_user \<Rightarrow>
          if u_role current_user \<noteq> ''admin''
          then Inl (HTTPException 403 ''Droits administrateur requis'')
          else Inr current_user)"

definition require_employee :: "database \<Rightarrow> string \<Rightarrow> http_exception + user" where
  "require_employee db token_user_id =
     (case get_current_user_from_db db token_user_id of
        Inl e \<Rightarrow> Inl e
      | Inr current_user \<Rightarrow>
          if u_role current_user \<noteq> ''employee''
          then Inl (HTTPException 403 ''Droits employe requis'')
          else Inr current_user)"

definition require_active_user :: "database \<Rightarrow> string \<Rightarrow> http_exception + user" where
  "require_active_user db token_user_id =
     (case get_current_user_from_db db token_user_id of
        Inl e \<Rightarrow> Inl e
      | Inr current_user \<Rightarrow>
          (let is_active = (case u_is_active current_user of
                              Some b \<Rightarrow> b
                            | None \<Rightarrow> u_status current_user = Some ''active'')
           in if \<not> is_active then Inl (HTTPException 403 ''Compte utilisateur inactif'')
              else Inr current_user))"

section \<open>\<open>app/api/v1/reports.py\<close>\<close>

text \<open>
  A handler takes the store, the token's user id, what the environment supplies (a new
  \<open>ObjectId\<close>, the clock) and the request; it returns the response or the
  \<open>HTTPException\<close>, and the store as it leaves it. Request bodies have passed their
  pydantic models.
\<close>

record report_create =
  rc_week_iso :: string
  rc_tasks :: "task_item list"
  rc_difficulties :: "string option"
  rc_remarks :: "string option"

record report_update =
  ru_tasks :: "task_item list option"
  ru_difficulties :: "string option"
  ru_remarks :: "string option"

record report_response =
  rr_id :: string
  rr_user_id :: string
  rr_user_name :: string
  rr_week_iso :: string
  rr_tasks :: "task_item list"
  rr_difficulties :: "string option"
  rr_remarks :: "string option"
  rr_total_hours :: py_float
  rr_status :: string
  rr_created_at :: timestamp
  rr_updated_at :: timestamp

text \<open>The field constraints of \<open>TaskItem\<close> and the constraints and validators of \<open>ReportBase\<close>.\<close>

definition valid_task_item :: "task_item \<Rightarrow> bool" where
  "valid_task_item t =
     (1 \<le> length (t_title t) \<and> length (t_title t) \<le> 200 \<and> float_ge0 (t_hours t)
      \<and> (case t_notes t of None \<Rightarrow> True | Some n \<Rightarrow> length n \<le> 500)
      \<and> (case t_project t of None \<Rightarrow> True | Some p \<Rightarrow> length p \<le> 100))"

definition valid_report_base ::
  "string \<Rightarrow> task_item list \<Rightarrow> string option \<Rightarrow> string option \<Rightarrow> bool" where
  "valid_report_base week_iso tasks difficulties remarks =
     (validate_iso_week_format week_iso
      \<and> tasks \<noteq> [] \<and> list_all valid_task_item tasks
      \<and> (case difficulties of None \<Rightarrow> True | Some d \<Rightarrow> length d \<le> 1000)
      \<and> (case remarks of None \<Rightarrow> True | Some r \<Rightarrow> length r \<le> 1000))"

text \<open>
  \<open>ReportResponse(_id=str(report["_id"]), ..., week_iso=report["week_iso"], ...)\<close>: a
  missing key raises \<open>KeyError\<close> and a value that fails the model raises a validation
  error; the handler's \<open>except Exception\<close> turns either into 500 with its own detail.
\<close>

definition report_response_of :: "report \<Rightarrow> string \<Rightarrow> report_response option" where
  "report_response_of r user_name =
     (case (r_week_iso r, r_tasks r, r_difficulties r, r_remarks r, r_total_hours r) of
        (Some w, Some ts, Some d, Some rm, Some h) \<Rightarrow>
          if valid_report_base w ts d rm
          then Some \<lparr>rr_id = r_id r, rr_user_id = r_user_id r, rr_user_name = user_name,
                     rr_week_iso = w, rr_tasks = ts, rr_difficulties = d, rr_remarks = rm,
                     rr_total_hours = h, rr_status = r_status r,
                     rr_created_at = r_created_at r, rr_updated_at = r_updated_at r\<rparr>
          else None
      | _ \<Rightarrow> None)"

text \<open>
  \<open>ReportInDB(user_id=..., week_iso=..., tasks=..., difficulties=..., remarks=...)\<close>
  with the defaults of the other fields, and its method \<open>calculate_total_hours\<close>. The
  constructor validates \<open>user_id\<close> as a \<open>PyObjectId\<close>.
\<close>

definition ReportInDB ::
  "object_id \<Rightarrow> timestamp \<Rightarrow> object_id \<Rightarrow> string \<Rightarrow> task_item list \<Rightarrow> string option
     \<Rightarrow> string option \<Rightarrow> py_error + report" where
  "ReportInDB new_id now user_id week_iso tasks difficulties remarks =
     (case PyObjectId_field user_id of
        Inl e \<Rightarrow> Inl e
      | Inr validated_user_id \<Rightarrow>
          Inr \<lparr>r_id = new_id, r_user_id = validated_user_id, r_week_iso = Some week_iso,
               r_tasks = Some tasks, r_difficulties = Some difficulties,
               r_remarks = Some remarks, r_total_hours = Some (Finite 0),
               r_status = ''submitted'', r_created_at = now, r_updated_at = now\<rparr>)"

definition calculate_total_hours :: "(py_float list \<Rightarrow> py_float) \<Rightarrow> report \<Rightarrow> report" where
  "calculate_total_hours builtin_sum r =
     (case r_tasks r of
        None \<Rightarrow> r
      | Some tasks \<Rightarrow> r\<lparr>r_total_hours := Some (builtin_sum (map t_hours tasks))\<rparr>)"

text \<open>
  \<open>create_report\<close>. Every exception other than an \<open>HTTPException\<close> ends the request
  with 500 and the handler's own detail.
\<close>

definition create_report ::
  "(py_float list \<Rightarrow> py_float) \<Rightarrow> database \<Rightarrow> string \<Rightarrow> object_id \<Rightarrow> timestamp \<Rightarrow> report_create
     \<Rightarrow> (http_exception + report_response) \<times> database" where
  "create_report builtin_sum db token_user_id new_id now report_data =
     (case require_active_user db token_user_id of
        Inl e \<Rightarrow> (Inl e, db)
      | Inr current_user \<Rightarrow>
          if u_role current_user \<noteq> ''employee''
          then (Inl (HTTPException 403 ''Seuls les employes peuvent creer des rapports''), db)
          else
            (case find_one (\<lambda>r. r_user_id r = u_id current_user
                                  \<and> r_week_iso r = Some (rc_week_iso report_data)) (reports db) of
               Some existing_report \<Rightarrow>
                 (Inl (HTTPException 400
                    (''Un rapport existe deja pour la semaine '' @ rc_week_iso report_data)), db)
             | None \<Rightarrow>
                 (case ReportInDB new_id now (u_id current_user) (rc_week_iso report_data)
                         (rc_tasks report_data) (rc_difficulties report_data)
                         (rc_remarks report_data) of
                    Inl e \<Rightarrow>
                      (Inl (HTTPException 500 ''Erreur lors de la creation du rapport''), db)
                  | Inr report_in_db \<Rightarrow>
                      (let report_in_db = calculate_total_hours builtin_sum report_in_db;
                           db' = db\<lparr>reports := insert_one report_in_db (reports db)\<rparr>
                       in case find_one (\<lambda>r. r_id r = new_id) (reports db') of
                            None \<Rightarrow>
                              (Inl (HTTPException 500 ''Erreur lors de la creation du rapport''),
                               db')
                          | Some created_report \<Rightarrow>
                              (case report_response_of created_report (u_name current_user) of
                                 None \<Rightarrow>
                                   (Inl (HTTPException 500
                                      ''Erreur lors de la creation du rapport''), db')
                               | Some response \<Rightarrow> (Inr response, db'))))))"

definition get_report ::
  "database \<Rightarrow> string \<Rightarrow> string \<Rightarrow> (http_exception + report_response) \<times> database" where
  "get_report db token_user_id report_id =
     (case get_current_user_from_db db token_user_id of
        Inl e \<Rightarrow> (Inl e, db)
      | Inr current_user \<Rightarrow>
          if \<not> ObjectId_is_valid report_id
          then (Inl (HTTPException 400 ''ID rapport invalide''), db)
          else
            (case find_one (\<lambda>r. r_id r = ObjectId report_id) (reports db) of
               None \<Rightarrow> (Inl (HTTPException 404 ''Rapport non trouve''), db)
             | Some report \<Rightarrow>
                 (let user_name = (case find_one (\<lambda>u. u_id u = r_user_id report) (users db) of
                                     Some user_info \<Rightarrow> u_name user_info
                                   | None \<Rightarrow> ''Utilisateur inconnu'')
                  in if u_role current_user = ''employee''
                        \<and> r_user_id report \<noteq> u_id current_user
                     then (Inl (HTTPException 403 ''Acces non autorise a ce rapport''), db)
                     else (case report_response_of report user_name of
                             None \<Rightarrow>
                               (Inl (HTTPException 500
                                  ''Erreur lors de la recuperation du rapport''), db)
                           | Some response \<Rightarrow> (Inr response, db)))))"

text \<open>The \<open>$set\<close> document that \<open>update_report\<close> builds, as the change it makes.\<close>

definition apply_report_update ::
  "(py_float list \<Rightarrow> py_float) \<Rightarrow> report_update \<Rightarrow> timestamp \<Rightarrow> report \<Rightarrow> report" where
  "apply_report_update builtin_sum report_update now r =
     (let r = (case ru_tasks report_update of
                 None \<Rightarrow> r
               | Some tasks \<Rightarrow> r\<lparr>r_tasks := Some tasks,
                                   r_total_hours := Some (builtin_sum (map t_hours tasks))\<rparr>);
          r = (case ru_difficulties report_update of
                 None \<Rightarrow> r
               | Some d \<Rightarrow> r\<lparr>r_difficulties := Some (Some d)\<rparr>);
          r = (case ru_remarks report_update of
                 None \<Rightarrow> r
               | Some rm \<Rightarrow> r\<lparr>r_remarks := Some (Some rm)\<rparr>)
      in r\<lparr>r_updated_at := now\<rparr>)"


record weekly_stats =
  ws_week_iso :: string
  ws_total_reports :: nat
  ws_total_hours :: py_float
  ws_employees_reported :: nat
  ws_average_hours_per_employee :: py_float

text \<open>Truthiness of an \<open>Optional[str]\<close> query parameter.\<close>

definition truthy :: "string option \<Rightarrow> bool" where
  "truthy v = (case v of None \<Rightarrow> False | Some s \<Rightarrow> s \<noteq> [])"

text \<open>
  The \<open>$match\<close> stage: a comparison on \<open>week_iso\<close> selects only documents that have the
  key.
\<close>

definition week_filter :: "string option \<Rightarrow> string option \<Rightarrow> report \<Rightarrow> bool" where
  "week_filter start_week end_week r =
     (if truthy start_week \<and> truthy end_week then
        (case r_week_iso r of None \<Rightarrow> False
         | Some w \<Rightarrow> the start_week \<le> w \<and> w \<le> the end_week)
      else if truthy start_week then
        (case r_week_iso r of None \<Rightarrow> False | Some w \<Rightarrow> the start_week \<le> w)
      else True)"

text \<open>
  The \<open>$group\<close> stage, one entry per distinct \<open>week_iso\<close> (an absent key groups under
  null): the key, \<open>total_reports\<close>, \<open>total_hours\<close> (the store's \<open>$sum\<close> of the
  \<open>total_hours\<close> of the documents that have the field)
  and the \<open>$addToSet\<close> of the owners.
\<close>

definition present_total_hours :: "report list \<Rightarrow> py_float list" where
  "present_total_hours g = concat (map (\<lambda>r. case r_total_hours r of None \<Rightarrow> [] | Some h \<Rightarrow> [h]) g)"

definition group_by_week ::
  "(py_float list \<Rightarrow> py_float) \<Rightarrow> report list
     \<Rightarrow> (string option \<times> nat \<times> py_float \<times> object_id list) list" where
  "group_by_week accumulator_sum rs =
     map (\<lambda>k. let g = filter (\<lambda>r. r_week_iso r = k) rs
              in (k, length g, accumulator_sum (present_total_hours g),
                  remdups (map r_user_id g)))
         (remdups (map r_week_iso rs))"

text \<open>The \<open>$project\<close> stage with its \<open>$cond\<close>.\<close>

definition project_stats ::
  "string option \<times> nat \<times> py_float \<times> object_id list
     \<Rightarrow> string option \<times> nat \<times> py_float \<times> nat \<times> py_float" where
  "project_stats g =
     (case g of (k, n, total_hours, employees) \<Rightarrow>
        (k, n, total_hours, length employees,
         if length employees > 0 then float_div_count total_hours (length employees)
         else Finite 0))"

text \<open>
  The loop that builds the \<open>WeeklyStats\<close>, with its \<open>round(..., 2)\<close>: a null \<open>week_iso\<close>
  fails the model's validation, an exception that ends the request with 500.
\<close>

fun build_weekly_stats ::
  "(string option \<times> nat \<times> py_float \<times> nat \<times> py_float) list \<Rightarrow> weekly_stats list option" where
  "build_weekly_stats [] = Some []"
| "build_weekly_stats ((k, n, total_hours, employees_reported, average) # stats) =
     (case k of
        None \<Rightarrow> None
      | Some w \<Rightarrow>
          (case build_weekly_stats stats of
             None \<Rightarrow> None
           | Some rest \<Rightarrow>
               Some (\<lparr>ws_week_iso = w, ws_total_reports = n, ws_total_hours = total_hours,
                      ws_employees_reported = employees_reported,
                      ws_average_hours_per_employee = py_round2 average\<rparr> # rest)))"

definition get_weekly_stats ::
  "(py_float list \<Rightarrow> py_float) \<Rightarrow> database \<Rightarrow> string \<Rightarrow> string option \<Rightarrow> string option
     \<Rightarrow> (http_exception + weekly_stats list) \<times> database" where
  "get_weekly_stats accumulator_sum db token_user_id start_week end_week =
     (case require_admin db token_user_id of
        Inl e \<Rightarrow> (Inl e, db)
      | Inr current_user \<Rightarrow>
          if truthy start_week \<and> truthy end_week
             \<and> (\<not> validate_iso_week_format (the start_week)
                 \<or> \<not> validate_iso_week_format (the end_week))
          then (Inl (HTTPException 400 ''Format de semaine invalide''), db)
          else if \<not> (truthy start_week \<and> truthy end_week) \<and> truthy start_week
                  \<and> \<not> validate_iso_week_format (the start_week)
          then (Inl (HTTPException 400 ''Format de semaine invalide''), db)
          else
            (let matched = filter (week_filter start_week end_week) (reports db);
                 stats = rev (sort_key fst
                              (map project_stats (group_by_week accumulator_sum matched)))
             in case build_weekly_stats stats of
                  None \<Rightarrow>
                    (Inl (HTTPException 500
                       ''Erreur lors de la recuperation des statistiques''), db)
                | Some weekly_stats \<Rightarrow> (Inr weekly_stats, db)))"

section \<open>\<open>app/api/v1/messages.py\<close>\<close>

record message_broadcast =
  mb_receiver_ids :: "string list"
  mb_subject :: "string option"
  mb_content :: string

text \<open>
  \<open>MessageInDB(sender_id=..., receiver_id=..., subject=..., content=...)\<close> with the
  defaults of the other fields. The constructor validates \<open>sender_id\<close> and then
  \<open>receiver_id\<close> as a \<open>PyObjectId\<close>.
\<close>

definition MessageInDB ::
  "object_id \<Rightarrow> timestamp \<Rightarrow> object_id \<Rightarrow> object_id \<Rightarrow> string option \<Rightarrow> string
     \<Rightarrow> py_error + message" where
  "MessageInDB new_id now sender_id receiver_id subject content =
     (case PyObjectId_field sender_id of
        Inl e \<Rightarrow> Inl e
      | Inr validated_sender_id \<Rightarrow>
          (case PyObjectId_field receiver_id of
             Inl e \<Rightarrow> Inl e
           | Inr validated_receiver_id \<Rightarrow>
               Inr \<lparr>m_id = new_id, m_sender_id = validated_sender_id,
                    m_receiver_id = validated_receiver_id, m_subject = subject,
                    m_content = content, m_read_status = False, m_read_at = None,
                    m_created_at = now\<rparr>))"

text \<open>
  The loop of \<open>broadcast_message\<close> that builds \<open>messages_to_insert\<close>, one
  \<open>MessageInDB\<close> per receiver found; the first exception ends it.
\<close>

fun build_messages ::
  "(nat \<times> user \<Rightarrow> py_error + message) \<Rightarrow> (nat \<times> user) list \<Rightarrow> py_error + message list" where
  "build_messages message_in_db [] = Inr []"
| "build_messages message_in_db (receiver # receivers) =
     (case message_in_db receiver of
        Inl e \<Rightarrow> Inl e
      | Inr m \<Rightarrow> (case build_messages message_in_db receivers of
                   Inl e \<Rightarrow> Inl e
                 | Inr ms \<Rightarrow> Inr (m # ms)))"

text \<open>
  \<open>broadcast_message\<close>. \<open>new_ids i\<close> is the \<open>_id\<close> that the \<open>i\<close>-th \<open>MessageInDB\<close> of
  the request receives. \<open>insert_many\<close> raises on an empty list. The response lists the
  created messages as read back. Every exception other than an \<open>HTTPException\<close> ends
  the request with 500 and the handler's own detail.
\<close>

definition broadcast_message ::
  "database \<Rightarrow> string \<Rightarrow> (nat \<Rightarrow> object_id) \<Rightarrow> timestamp \<Rightarrow> message_broadcast
     \<Rightarrow> (http_exception + message list) \<times> database" where
  "broadcast_message db token_user_id new_ids now message_data =
     (case require_admin db token_user_id of
        Inl e \<Rightarrow> (Inl e, db)
      | Inr current_user \<Rightarrow>
          (case find_one (\<lambda>receiver_id. \<not> ObjectId_is_valid receiver_id)
                  (mb_receiver_ids message_data) of
             Some receiver_id \<Rightarrow>
               (Inl (HTTPException 400 (''ID destinataire invalide: '' @ receiver_id)), db)
           | None \<Rightarrow>
               (let receiver_object_ids = map ObjectId (mb_receiver_ids message_data);
                    receivers = find_all (\<lambda>u. u_id u \<in> set receiver_object_ids
                                              \<and> u_role u = ''employee''
                                              \<and> u_status u = Some ''active'') (users db)
                in if length receivers \<noteq> length (mb_receiver_ids message_data)
                   then (Inl (HTTPException 400
                           ''Certains destinataires sont invalides ou inactifs''), db)
                   else
                     (case build_messages
                             (\<lambda>(i, receiver).
                                MessageInDB (new_ids i) now (u_id current_user) (u_id receiver)
                                  (mb_subject message_data) (mb_content message_data))
                             (enumerate 0 receivers) of
                        Inl e \<Rightarrow>
                          (Inl (HTTPException 500 ''Erreur lors de l'envoi du message groupe''),
                           db)
                      | Inr messages_to_insert \<Rightarrow>
                          if messages_to_insert = []
                          then (Inl (HTTPException 500
                                  ''Erreur lors de l'envoi du message groupe''), db)
                          else
                            (let db' = db\<lparr>messages :=
                                            insert_many messages_to_insert (messages db)\<rparr>;
                                 created_messages =
                                   find_all (\<lambda>m. m_id m \<in> set (map m_id messages_to_insert))
                                     (messages db')
                             in (Inr created_messages, db'))))))"

definition mark_read :: "timestamp \<Rightarrow> message \<Rightarrow> message" where
  "mark_read now m = m\<lparr>m_read_status := True, m_read_at := Some now\<rparr>"

text \<open>
  \<open>get_message\<close> answers with the message and the two display names. (The answer's
  \<open>read_at\<close> comes from a second reading of the clock; one \<open>now\<close> stands for both.)
\<close>

definition get_message ::
  "database \<Rightarrow> string \<Rightarrow> timestamp \<Rightarrow> string
     \<Rightarrow> (http_exception + message \<times> string \<times> string) \<times> database" where
  "get_message db token_user_id now message_id =
     (case get_current_user_from_db db token_user_id of
        Inl e \<Rightarrow> (Inl e, db)
      | Inr current_user \<Rightarrow>
          if \<not> ObjectId_is_valid message_id
          then (Inl (HTTPException 400 ''ID message invalide''), db)
          else
            (case find_one (\<lambda>m. m_id m = ObjectId message_id) (messages db) of
               None \<Rightarrow> (Inl (HTTPException 404 ''Message non trouve''), db)
             | Some message \<Rightarrow>
                 (let sender_name = (case find_one (\<lambda>u. u_id u = m_sender_id message) (users db) of
                                       Some sender_info \<Rightarrow> u_name sender_info
                                     | None \<Rightarrow> ''Utilisateur inconnu'');
                      receiver_name = (case find_one (\<lambda>u. u_id u = m_receiver_id message) (users db) of
                                         Some receiver_info \<Rightarrow> u_name receiver_info
                                       | None \<Rightarrow> ''Utilisateur inconnu'');
                      user_is_sender = (m_sender_id message = u_id current_user);
                      user_is_receiver = (m_receiver_id message = u_id current_user)
                  in if \<not> user_is_sender \<and> \<not> user_is_receiver
                     then (Inl (HTTPException 403 ''Acces non autorise a ce message''), db)
                     else if user_is_receiver \<and> \<not> m_read_status message
                     then (Inr (mark_read now message, sender_name, receiver_name),
                           db\<lparr>messages := update_one (\<lambda>m. m_id m = ObjectId message_id)
                                             (mark_read now) (messages db)\<rparr>)
                     else (Inr (message, sender_name, receiver_name), db))))"

definition mark_message_as_read ::
  "database \<Rightarrow> string \<Rightarrow> timestamp \<Rightarrow> string \<Rightarrow> (http_exception + string) \<times> database" where
  "mark_message_as_read db token_user_id now message_id =
     (case require_employee db token_user_id of
        Inl e \<Rightarrow> (Inl e, db)
      | Inr current_user \<Rightarrow>
          if \<not> ObjectId_is_valid message_id
          then (Inl (HTTPException 400 ''ID message invalide''), db)
          else
            (case find_one (\<lambda>m. m_id m = ObjectId message_id
                                  \<and> m_receiver_id m = u_id current_user) (messages db) of
               None \<Rightarrow> (Inl (HTTPException 404 ''Message non trouve ou acces non autorise''), db)
             | Some existing_message \<Rightarrow>
                 (Inr ''Message marque comme lu'',
                  db\<lparr>messages := update_one (\<lambda>m. m_id m = ObjectId message_id)
                                    (mark_read now) (messages db)\<rparr>)))"

section \<open>\<open>app/api/v1/users.py\<close>\<close>

definition delete_user ::
  "database \<Rightarrow> string \<Rightarrow> string \<Rightarrow> (http_exception + string) \<times> database" where
  "delete_user db token_user_id user_id =
     (case require_admin db token_user_id of
        Inl e \<Rightarrow> (Inl e, db)
      | Inr current_user \<Rightarrow>
          if \<not> ObjectId_is_valid user_id
          then (Inl (HTTPException 400 ''ID utilisateur invalide''), db)
          else
            (case find_one (\<lambda>u. u_id u = ObjectId user_id) (users db) of
               None \<Rightarrow> (Inl (HTTPException 404 ''Utilisateur non trouve''), db)
             | Some user \<Rightarrow>
                 if u_id user = u_id current_user
                 then (Inl (HTTPException 400 ''Impossible de supprimer votre propre compte''), db)
                 else
                   (let db = db\<lparr>reports :=
                                  delete_many (\<lambda>r. r_user_id r = ObjectId user_id) (reports db)\<rparr>;
                        db = db\<lparr>comments :=
                                  delete_many (\<lambda>c. c_admin_id c = ObjectId user_id) (comments db)\<rparr>;
                        db = db\<lparr>messages :=
                                  delete_many (\<lambda>m. m_sender_id m = ObjectId user_id
                                                   \<or> m_receiver_id m = ObjectId user_id)
                                    (messages db)\<rparr>;
                        db = db\<lparr>users := delete_one (\<lambda>u. u_id u = ObjectId user_id) (users db)\<rparr>
                    in (Inr ''Utilisateur supprime avec succes'', db))))"

section \<open>Predicates used in the statements\<close>


text \<open>A receiver id resolves when it is well formed and names an active employee.\<close>

definition resolves_to_active_employee :: "database \<Rightarrow> string \<Rightarrow> bool" where
  "resolves_to_active_employee db receiver_id =
     (ObjectId_is_valid receiver_id
      \<and> list_ex (\<lambda>u. u_id u = ObjectId receiver_id \<and> u_role u = ''employee''
                     \<and> u_status u = Some ''active'') (users db))"

section \<open>An example store\<close>

text \<open>
  Two administrators, three active employees and an inactive one; three weekly reports
  for \<open>2024-W01\<close>, one comment and one unread message.
\<close>

definition admin_a :: user where
  "admin_a = \<lparr>u_id = ''0000000000000000000000a1'', u_email = ''a@example.org'',
     u_name = ''Awa'', u_role = ''admin'', u_status = Some ''active'', u_is_active = None\<rparr>"

definition admin_b :: user where
  "admin_b = \<lparr>u_id = ''0000000000000000000000a2'', u_email = ''b@example.org'',
     u_name = ''Boris'', u_role = ''admin'', u_status = Some ''active'', u_is_active = None\<rparr>"

definition employee_1 :: user where
  "employee_1 = \<lparr>u_id = ''0000000000000000000000e1'', u_email = ''e1@example.org'',
     u_name = ''Fatou'', u_role = ''employee'', u_status = Some ''active'', u_is_active = None\<rparr>"

definition employee_2 :: user where
  "employee_2 = \<lparr>u_id = ''0000000000000000000000e2'', u_email = ''e2@example.org'',
     u_name = ''Issa'', u_role = ''employee'', u_status = Some ''active'', u_is_active = None\<rparr>"

definition employee_3 :: user where
  "employee_3 = \<lparr>u_id = ''0000000000000000000000e3'', u_email = ''e3@example.org'',
     u_name = ''Salif'', u_role = ''employee'', u_status = Some ''active'', u_is_active = None\<rparr>"

definition employee_4 :: user where
  "employee_4 = \<lparr>u_id = ''0000000000000000000000e4'', u_email = ''e4@example.org'',
     u_name = ''Moussa'', u_role = ''employee'', u_status = Some ''inactive'',
     u_is_active = None\<rparr>"

definition task :: "string \<Rightarrow> real \<Rightarrow> task_item" where
  "task name h = \<lparr>t_title = name, t_hours = Finite h, t_notes = None, t_project = None\<rparr>"

definition weekly_report ::
  "object_id \<Rightarrow> user \<Rightarrow> string \<Rightarrow> task_item list \<Rightarrow> real \<Rightarrow> report" where
  "weekly_report i owner week ts h =
     \<lparr>r_id = i, r_user_id = u_id owner, r_week_iso = Some week, r_tasks = Some ts,
      r_difficulties = Some None, r_remarks = Some None,
      r_total_hours = Some (Finite h), r_status = ''submitted'',
      r_created_at = 10, r_updated_at = 10\<rparr>"

definition report_1 :: report where
  "report_1 = weekly_report ''000000000000000000000011'' employee_1 ''2024-W01''
                [task ''analyse'' 3, task ''redaction'' (9 / 2)] (15 / 2)"

definition report_2 :: report where
  "report_2 = weekly_report ''000000000000000000000012'' employee_2 ''2024-W01''
                [task ''support'' (3 / 2)] (3 / 2)"

definition report_3 :: report where
  "report_3 = weekly_report ''000000000000000000000013'' employee_3 ''2024-W01''
                [task ''tests'' 1] 1"

definition comment_1 :: comment where
  "comment_1 = \<lparr>c_id = ''0000000000000000000000c1'', c_report_id = r_id report_1,
     c_admin_id = u_id admin_b, c_content = ''bien''\<rparr>"

definition message_1 :: message where
  "message_1 = \<lparr>m_id = ''0000000000000000000000d1'', m_sender_id = u_id admin_a,
     m_receiver_id = u_id employee_1, m_subject = None, m_content = ''bonjour'',
     m_read_status = False, m_read_at = None, m_created_at = 20\<rparr>"

definition message_2 :: message where
  "message_2 = \<lparr>m_id = ''0000000000000000000000d2'', m_sender_id = u_id admin_b,
     m_receiver_id = u_id employee_2, m_subject = None, m_content = ''rappel'',
     m_read_status = False, m_read_at = None, m_created_at = 21\<rparr>"

definition example_new_ids :: "nat \<Rightarrow> object_id" where
  "example_new_ids i = ''0000000000000000000000f'' @ [digit_char i]"

definition example_db :: database where
  "example_db = \<lparr>users = [admin_a, admin_b, employee_1, employee_2, employee_3, employee_4],
     reports = [report_1, report_2, report_3], comments = [comment_1],
     messages = [message_1, message_2]\<rparr>"

section \<open>Decimal rendering and reading\<close>

lemma digit_char_is_digit: "d < 10 \<Longrightarrow> is_digit (digit_char d)"
proof -
  assume "d < 10"
  then have "d \<in> {0,1,2,3,4,5,6,7,8,9}" by auto
  then show ?thesis by (auto simp: is_digit_def digit_char_def)
qed

lemma digit_val_digit_char: "d < 10 \<Longrightarrow> digit_val (digit_char d) = d"
proof -
  assume "d < 10"
  then have "d \<in> {0,1,2,3,4,5,6,7,8,9}" by auto
  then show ?thesis by (auto simp: digit_val_def digit_char_def)
qed

lemma str_nat_digits: "list_all is_digit (str_nat n)"
proof (induction n rule: str_nat.induct)
  case (1 n)
  show ?case
  proof (cases "n < 10")
    case True
    then show ?thesis by (subst str_nat.simps) (simp add: digit_char_is_digit)
  next
    case False
    with 1 show ?thesis by (subst str_nat.simps) (simp add: digit_char_is_digit)
  qed
qed

lemma str_nat_nonempty: "str_nat n \<noteq> []"
  by (subst str_nat.simps) simp

lemma digits_val_snoc: "digits_val (s @ [c]) = 10 * digits_val s + digit_val c"
  by (simp add: digits_val_def)

lemma digits_val_str_nat: "digits_val (str_nat n) = n"
proof (induction n rule: str_nat.induct)
  case (1 n)
  show ?case
  proof (cases "n < 10")
    case True
    then show ?thesis
      by (subst str_nat.simps) (simp add: digits_val_def digit_val_digit_char)
  next
    case False
    with 1 show ?thesis
      by (subst str_nat.simps) (simp add: digits_val_snoc digit_val_digit_char)
  qed
qed

lemma digit_not_space: "is_digit c \<Longrightarrow> \<not> is_space c"
  by (auto simp: is_digit_def is_space_def is_ascii_space_def)

lemma strip_digits: "list_all is_digit s \<Longrightarrow> strip s = s"
proof (cases s)
  case Nil
  then show ?thesis by (simp add: strip_def)
next
  case (Cons c cs)
  assume d: "list_all is_digit s"
  have 1: "dropWhile is_space s = s"
    using d Cons by (simp add: digit_not_space)
  have "rev s \<noteq> []" using Cons by simp
  then obtain e es where r: "rev s = e # es" by (cases "rev s") auto
  have "e \<in> set s" using r by (metis list.set_intros(1) set_rev)
  then have "is_digit e" using d by (simp add: list_all_iff)
  then have 2: "dropWhile is_space (rev s) = rev s"
    using r by (simp add: digit_not_space)
  show ?thesis by (simp add: strip_def 1 2)
qed

lemma digits_ok_digits: "s \<noteq> [] \<Longrightarrow> list_all is_digit s \<Longrightarrow> digits_ok s"
  by (induction s rule: digits_ok.induct) (auto simp: is_digit_def)

lemma filter_digits: "list_all is_digit s \<Longrightarrow> filter is_digit s = s"
  by (induction s) auto

lemma py_int_digits:
  assumes ne: "s \<noteq> []" and d: "list_all is_digit s"
  shows "py_int s = Inr (int (digits_val s))"
proof -
  from ne obtain c cs where s: "s = c # cs" by (cases s) auto
  with d have "is_digit c" by simp
  then have c: "c \<noteq> CHR ''-''" "c \<noteq> CHR ''+''" by (auto simp: is_digit_def)
  have "strip s = c # cs" using strip_digits [OF d] s by simp
  then show ?thesis
    using c digits_ok_digits [OF ne d] filter_digits [OF d] s by (simp add: py_int_def)
qed

lemma py_int_str_nat: "py_int (str_nat n) = Inr (int n)"
  by (simp add: py_int_digits str_nat_digits str_nat_nonempty digits_val_str_nat)

lemma split_W_digits: "list_all is_digit s \<Longrightarrow> split_W s = [s]"
  by (induction s rule: split_W.induct) (auto simp: is_digit_def)

lemma split_W_year_week:
  "list_all is_digit a \<Longrightarrow> list_all is_digit b \<Longrightarrow> split_W (a @ ''-W'' @ b) = [a, b]"
proof (induction a)
  case Nil
  then show ?case by (simp add: split_W_digits)
next
  case (Cons c cs)
  then have c: "c \<noteq> CHR ''-''" by (auto simp: is_digit_def)
  show ?case
  proof (cases cs)
    case Nil
    then show ?thesis using Cons c by (simp add: split_W_digits)
  next
    case (Cons d ds)
    then show ?thesis using Cons.IH Cons.prems c by simp
  qed
qed

lemma parse_year_week_fmt:
  "parse_year_week (str_nat y @ ''-W'' @ str_nat w) = Inr (int y, int w)"
  by (simp add: parse_year_week_def split_W_year_week str_nat_digits py_int_str_nat del: append.simps)

lemma str_nat_2020: "str_nat 2020 = ''2020''"
  by code_simp

lemma length_str_nat_ge2: "10 \<le> n \<Longrightarrow> 2 \<le> length (str_nat n)"
  by (subst str_nat.simps) (use str_nat_nonempty [of "n div 10"] in \<open>cases "str_nat (n div 10)"; simp\<close>)

lemma fmt_02d_ge10: "10 \<le> n \<Longrightarrow> fmt_02d (int n) = str_nat n"
  using length_str_nat_ge2 [of n] by (simp add: fmt_02d_def)

lemma le_2021: "''2020-W'' @ s \<le> ''2021-W01''"
  by simp

lemma week_loop_diverges_aux:
  assumes "week_loop cw0 ew0 ws0 = Some y0"
  shows "\<not> (ew0 = ''2021-W01'' \<and> (\<exists>k\<ge>53. cw0 = ''2020-W'' @ str_nat k))"
proof (rule week_loop.raw_induct
    [where P = "\<lambda>cw ew ws y. \<not> (ew = ''2021-W01'' \<and> (\<exists>k\<ge>53. cw = ''2020-W'' @ str_nat k))",
      OF _ assms])
  fix f :: "string \<Rightarrow> string \<Rightarrow> string list \<Rightarrow> (py_error + string list) option"
  fix cw ew ws y
  assume IH: "\<And>a b c z. f a b c = Some z \<Longrightarrow>
      \<not> (b = ''2021-W01'' \<and> (\<exists>k\<ge>53. a = ''2020-W'' @ str_nat k))"
  assume body: "(if cw \<le> ew then
        (case parse_year_week cw of
           Inl e \<Rightarrow> Some (Inl e)
         | Inr (year, week) \<Rightarrow>
             f (if week = 52 then str_int (year + 1) @ ''-W01''
                else str_int year @ ''-W'' @ fmt_02d (week + 1))
               ew (ws @ [cw]))
      else Some (Inr ws)) = Some y"
  show "\<not> (ew = ''2021-W01'' \<and> (\<exists>k\<ge>53. cw = ''2020-W'' @ str_nat k))"
  proof
    assume a: "ew = ''2021-W01'' \<and> (\<exists>k\<ge>53. cw = ''2020-W'' @ str_nat k)"
    then obtain k where k: "53 \<le> k" "cw = ''2020-W'' @ str_nat k" by blast
    have le: "cw \<le> ew" using a k by simp
    have "cw = str_nat 2020 @ ''-W'' @ str_nat k" using k by (simp add: str_nat_2020)
    then have p: "parse_year_week cw = Inr (2020, int k)"
      by (simp only: parse_year_week_fmt) simp
    have f: "fmt_02d (int k + 1) = str_nat (Suc k)"
      using fmt_02d_ge10 [of "Suc k"] k(1) by (simp add: add.commute)
    have s: "str_int 2020 = ''2020''" using str_nat_2020 by (simp add: str_int_def)
    from body le p k(1) have "f (''2020-W'' @ str_nat (Suc k)) ew (ws @ [cw]) = Some y"
      by (simp add: f s)
    note n = IH [OF this]
    have "53 \<le> Suc k" using k(1) by simp
    then have "\<exists>j\<ge>53. ''2020-W'' @ str_nat (Suc k) = ''2020-W'' @ str_nat j"
      by (intro exI [of _ "Suc k"] conjI refl)
    with n a show False by (elim notE conjE) (intro conjI)
  qed
qed

lemma val_2020: "validate_iso_week_format ''2020-W53''" "validate_iso_week_format ''2021-W01''"
  by (simp_all add: validate_iso_week_format_def matches_week_pattern_def is_digit_def)

lemma str_nat_53: "str_nat 53 = ''53''"
  by code_simp

section \<open>Floating-point sums and quotients\<close>




lemmas binary64_eval =
  binary64_def floor_log2_def pow2_def round_half_even_def bit_length.simps Let_def




lemma float_sum_10: "float_sum [Finite (15 / 2), Finite (3 / 2), Finite 1] = Finite 10"
  by (simp add: float_sum_def binary64_eval)


lemma float_div_10_by_3:
  "float_div_count (Finite 10) 3 = Finite (7505999378950827 / 2251799813685248)"
  by (simp add: float_div_count_def binary64_eval)

lemma py_round2_10_by_3:
  "py_round2 (Finite (7505999378950827 / 2251799813685248))
     = Finite (1874623344892969 / 562949953421312)"
  by (simp add: py_round2_def binary64_eval)

text \<open>
  Two roundings follow one another in the average: the quotient is rounded to a float
  and that float to two decimals. \<open>5.25 / 10\<close> is the float just above \<open>0.525\<close>, so
  that \<open>round(5.25 / 10, 2)\<close> is \<open>0.53\<close>, where the real quotient \<open>0.525\<close> is a tie
  that would go to \<open>0.52\<close>.
\<close>

lemma py_round2_5_25_by_10:
  "py_round2 (float_div_count (Finite (21 / 4)) 10) = binary64 (53 / 100)"
  by (simp add: py_round2_def float_div_count_def binary64_eval)

text \<open>
  A float sum is not always the sum of the reals: \<open>0.1 + 0.2\<close> is
  \<open>0.30000000000000004\<close>, one unit in the last place above the float \<open>0.3\<close>.
\<close>

lemma float_sum_0_1_and_0_2:
  "float_sum [binary64 (1 / 10), binary64 (2 / 10)] = Finite (1351079888211149 / 4503599627370496)
   \<and> binary64 (3 / 10) = Finite (5404319552844595 / 18014398509481984)
   \<and> (1351079888211149 / 4503599627370496 :: real) \<noteq> 5404319552844595 / 18014398509481984"
  by (simp add: float_sum_def binary64_eval)

section \<open>Queries and the authentication dependencies\<close>

lemma find_one_Some_set: "find_one P xs = Some x \<Longrightarrow> x \<in> set xs \<and> P x"
  by (auto simp: find_one_def find_Some_iff)

lemma find_one_None_iff: "find_one P xs = None \<longleftrightarrow> (\<forall>x\<in>set xs. \<not> P x)"
  by (auto simp: find_one_def find_None_iff)

lemma find_one_exists: "x \<in> set xs \<Longrightarrow> P x \<Longrightarrow> \<exists>y. find_one P xs = Some y \<and> P y"
  by (cases "find_one P xs") (auto simp: find_one_None_iff dest: find_one_Some_set)

lemma require_admin_Inr:
  "require_admin db tok = Inr cu \<Longrightarrow>
     get_current_user_from_db db tok = Inr cu \<and> u_role cu = ''admin''"
  by (auto simp: require_admin_def split: sum.splits if_splits)

lemma require_employee_Inr:
  "require_employee db tok = Inr cu \<Longrightarrow>
     get_current_user_from_db db tok = Inr cu \<and> u_role cu = ''employee''"
  by (auto simp: require_employee_def split: sum.splits if_splits)

lemma require_active_user_Inr:
  "require_active_user db tok = Inr cu \<Longrightarrow> get_current_user_from_db db tok = Inr cu"
  by (auto simp: require_active_user_def Let_def split: sum.splits if_splits)

lemma current_user_in_db:
  "get_current_user_from_db db tok = Inr cu \<Longrightarrow> cu \<in> set (users db)"
  by (auto simp: get_current_user_from_db_def split: if_splits option.splits
      dest: find_one_Some_set)

lemma delete_one_distinct:
  "distinct (map f xs) \<Longrightarrow> \<forall>x\<in>set (delete_one (\<lambda>x. f x = k) xs). f x \<noteq> k"
proof (induction xs)
  case Nil
  then show ?case by simp
next
  case (Cons a xs)
  show ?case
  proof (cases "f a = k")
    case True
    with Cons.prems have "k \<notin> f ` set xs" by simp
    then have "\<forall>x\<in>set xs. f x \<noteq> k" by blast
    with True show ?thesis by simp
  next
    case False
    with Cons show ?thesis by simp
  qed
qed

lemma delete_many_none: "find_all P (delete_many P xs) = []"
  by (simp add: find_all_def delete_many_def)

section \<open>Collections, reports and broadcast: auxiliary facts\<close>



lemma apply_report_update_id [simp]: "r_id (apply_report_update S ru now r) = r_id r"
  by (simp add: apply_report_update_def Let_def split: option.splits)

lemma apply_report_update_week [simp]:
  "r_week_iso (apply_report_update S ru now r) = r_week_iso r"
  by (simp add: apply_report_update_def Let_def split: option.splits)











lemma build_weekly_stats_Some:
  "build_weekly_stats xs = Some ys \<Longrightarrow>
     \<forall>s\<in>set ys. \<exists>avg. (Some (ws_week_iso s), ws_total_reports s, ws_total_hours s,
                           ws_employees_reported s, avg) \<in> set xs
                         \<and> ws_average_hours_per_employee s = py_round2 avg"
proof (induction xs arbitrary: ys rule: build_weekly_stats.induct)
  case 1
  then show ?case by simp
next
  case (2 k n total_hours employees_reported average stats)
  from "2.prems" obtain w rest where k: "k = Some w"
    and rest: "build_weekly_stats stats = Some rest"
    and ys: "ys = \<lparr>ws_week_iso = w, ws_total_reports = n, ws_total_hours = total_hours,
                    ws_employees_reported = employees_reported,
                    ws_average_hours_per_employee = py_round2 average\<rparr> # rest"
    by (auto split: option.splits)
  have "\<forall>s\<in>set rest. \<exists>avg. (Some (ws_week_iso s), ws_total_reports s, ws_total_hours s,
                           ws_employees_reported s, avg) \<in> set stats
                         \<and> ws_average_hours_per_employee s = py_round2 avg"
    using "2.IH" [OF k rest] .
  then show ?case unfolding ys k by auto
qed

lemma group_by_week_member:
  assumes "(k, n, th, emps) \<in> set (group_by_week S rs)"
  shows "k \<in> set (map r_week_iso rs)
       \<and> n = length (filter (\<lambda>r. r_week_iso r = k) rs)
       \<and> th = S (present_total_hours (filter (\<lambda>r. r_week_iso r = k) rs))
       \<and> emps = remdups (map r_user_id (filter (\<lambda>r. r_week_iso r = k) rs))"
  using assms by (auto simp: group_by_week_def Let_def)

lemma filter_week_nonempty:
  "k \<in> set (map r_week_iso rs) \<Longrightarrow> filter (\<lambda>r. r_week_iso r = k) rs \<noteq> []"
  by (auto simp: filter_empty_conv)

lemma length_filter_distinct_key:
  assumes "distinct (map f xs)"
  shows "length (filter P xs) = card (f ` {x \<in> set xs. P x})"
proof -
  have "distinct (map f (filter P xs))" using assms by (rule distinct_map_filter)
  then have "card (set (map f (filter P xs))) = length (map f (filter P xs))"
    by (rule distinct_card)
  then show ?thesis by simp
qed

lemma broadcast_receivers_count:
  assumes ids: "distinct (map u_id (users db))"
  shows "length (find_all (\<lambda>u. u_id u \<in> S \<and> u_role u = ''employee''
                             \<and> u_status u = Some ''active'') (users db))
         = card {k \<in> S. \<exists>u\<in>set (users db). u_id u = k \<and> u_role u = ''employee''
                             \<and> u_status u = Some ''active''}"
proof -
  have "u_id ` {u \<in> set (users db). u_id u \<in> S \<and> u_role u = ''employee''
                             \<and> u_status u = Some ''active''}
        = {k \<in> S. \<exists>u\<in>set (users db). u_id u = k \<and> u_role u = ''employee''
                             \<and> u_status u = Some ''active''}"
    by auto
  then show ?thesis
    using length_filter_distinct_key [OF ids, of "\<lambda>u. u_id u \<in> S \<and> u_role u = ''employee''
                             \<and> u_status u = Some ''active''"]
    by (simp add: find_all_def)
qed

lemma resolves_iff:
  "resolves_to_active_employee db r \<longleftrightarrow>
     ObjectId_is_valid r \<and> (\<exists>u\<in>set (users db). u_id u = ObjectId r \<and> u_role u = ''employee''
                             \<and> u_status u = Some ''active'')"
  by (simp add: resolves_to_active_employee_def list_ex_iff)

lemma broadcast_count_all:
  assumes ids: "distinct (map u_id (users db))"
    and res: "list_all (resolves_to_active_employee db) R"
    and dis: "distinct (map ObjectId R)"
  shows "length (find_all (\<lambda>u. u_id u \<in> set (map ObjectId R) \<and> u_role u = ''employee''
                             \<and> u_status u = Some ''active'') (users db)) = length R"
proof -
  have "{k \<in> set (map ObjectId R). \<exists>u\<in>set (users db). u_id u = k \<and> u_role u = ''employee''
                             \<and> u_status u = Some ''active''} = set (map ObjectId R)"
    using res by (auto simp: list_all_iff resolves_iff)
  then have "length (find_all (\<lambda>u. u_id u \<in> set (map ObjectId R) \<and> u_role u = ''employee''
                             \<and> u_status u = Some ''active'') (users db))
             = card (set (map ObjectId R))"
    using broadcast_receivers_count [OF ids, of "set (map ObjectId R)"] by simp
  also have "\<dots> = length (map ObjectId R)" using dis by (rule distinct_card)
  finally show ?thesis by simp
qed



lemma build_messages_raises:
  "build_messages (\<lambda>(i, receiver). MessageInDB (new_ids i) now sender (u_id receiver) subject content)
     receivers = (if receivers = [] then Inr [] else Inl TypeError)"
  by (cases receivers) (auto simp: MessageInDB_def PyObjectId_field_def)


section \<open>Users\<close>

text \<open>
  C10. An administrator who calls \<open>delete_user\<close> with their own identifier gets an
  error and the store is left exactly as it was: the own-account check comes before
  any deletion.
\<close>

theorem delete_user_own_account_rejected:
  assumes adm: "require_admin db token_user_id = Inr current_user"
    and valid: "ObjectId_is_valid user_id"
    and own: "ObjectId user_id = u_id current_user"
  shows "delete_user db token_user_id user_id =
           (Inl (HTTPException 400 ''Impossible de supprimer votre propre compte''), db)"
proof -
  have "current_user \<in> set (users db)"
    using adm by (blast dest: require_admin_Inr current_user_in_db)
  then obtain user where u: "find_one (\<lambda>u. u_id u = ObjectId user_id) (users db) = Some user"
    and "u_id user = ObjectId user_id"
    using find_one_exists [of current_user "users db" "\<lambda>u. u_id u = ObjectId user_id"] own
    by auto
  then have "u_id user = u_id current_user" using own by simp
  then show ?thesis
    using adm valid u by (simp add: delete_user_def)
qed

theorem delete_user_own_account_rejected_witness:
  "require_admin example_db ''0000000000000000000000a1'' = Inr admin_a
   \<and> ObjectId_is_valid ''0000000000000000000000A1''
   \<and> ObjectId ''0000000000000000000000A1'' = u_id admin_a
   \<and> delete_user example_db ''0000000000000000000000a1'' ''0000000000000000000000A1'' =
       (Inl (HTTPException 400 ''Impossible de supprimer votre propre compte''), example_db)"
proof -
  have h1: "require_admin example_db ''0000000000000000000000a1'' = Inr admin_a" by code_simp
  have h2: "ObjectId_is_valid ''0000000000000000000000A1''" by code_simp
  have h3: "ObjectId ''0000000000000000000000A1'' = u_id admin_a" by code_simp
  show ?thesis using delete_user_own_account_rejected [OF h1 h2 h3] h1 h2 h3 by simp
qed

text \<open>
  C8. After a successful \<open>delete_user\<close> on the identifier \<open>U\<close> (so the caller is another
  administrator and the user exists), the store holds no report with \<open>user_id = U\<close>, no
  comment with \<open>admin_id = U\<close>, no message with \<open>sender_id = U\<close> or \<open>receiver_id = U\<close>,
  and no user with id \<open>U\<close>. The store keeps \<open>_id\<close> unique within a collection.
\<close>

theorem delete_user_cascade:
  assumes ok: "delete_user db token_user_id user_id = (Inr msg, db')"
    and ids: "distinct (map u_id (users db))"
  shows "length (find_all (\<lambda>r. r_user_id r = ObjectId user_id) (reports db')) = 0
       \<and> length (find_all (\<lambda>c. c_admin_id c = ObjectId user_id) (comments db')) = 0
       \<and> length (find_all (\<lambda>m. m_sender_id m = ObjectId user_id
                                  \<or> m_receiver_id m = ObjectId user_id) (messages db')) = 0
       \<and> find_one (\<lambda>u. u_id u = ObjectId user_id) (users db') = None"
proof -
  from ok have db': "db' = db\<lparr>reports := delete_many (\<lambda>r. r_user_id r = ObjectId user_id) (reports db),
        comments := delete_many (\<lambda>c. c_admin_id c = ObjectId user_id) (comments db),
        messages := delete_many (\<lambda>m. m_sender_id m = ObjectId user_id
                                      \<or> m_receiver_id m = ObjectId user_id) (messages db),
        users := delete_one (\<lambda>u. u_id u = ObjectId user_id) (users db)\<rparr>"
    by (auto simp: delete_user_def Let_def split: sum.splits if_splits option.splits)
  have "find_one (\<lambda>u. u_id u = ObjectId user_id)
          (delete_one (\<lambda>u. u_id u = ObjectId user_id) (users db)) = None"
    using delete_one_distinct [OF ids, of "ObjectId user_id"] by (simp add: find_one_None_iff)
  then show ?thesis by (simp add: db' delete_many_none)
qed

theorem delete_user_cascade_witness:
  "distinct (map u_id (users example_db))
   \<and> fst (delete_user example_db ''0000000000000000000000a1'' ''0000000000000000000000e1'') =
       Inr ''Utilisateur supprime avec succes''
   \<and> length (find_all (\<lambda>r. r_user_id r = ObjectId ''0000000000000000000000e1'')
        (reports (snd (delete_user example_db ''0000000000000000000000a1''
                         ''0000000000000000000000e1'')))) = 0
   \<and> length (find_all (\<lambda>m. m_sender_id m = ObjectId ''0000000000000000000000e1''
                            \<or> m_receiver_id m = ObjectId ''0000000000000000000000e1'')
        (messages (snd (delete_user example_db ''0000000000000000000000a1''
                          ''0000000000000000000000e1'')))) = 0
   \<and> find_one (\<lambda>u. u_id u = ObjectId ''0000000000000000000000e1'')
        (users (snd (delete_user example_db ''0000000000000000000000a1''
                       ''0000000000000000000000e1''))) = None"
proof -
  have d: "distinct (map u_id (users example_db))" by code_simp
  have f: "fst (delete_user example_db ''0000000000000000000000a1'' ''0000000000000000000000e1'') =
       Inr ''Utilisateur supprime avec succes''" by code_simp
  then have ok: "delete_user example_db ''0000000000000000000000a1'' ''0000000000000000000000e1'' =
      (Inr ''Utilisateur supprime avec succes'',
       snd (delete_user example_db ''0000000000000000000000a1'' ''0000000000000000000000e1''))"
    by (metis prod.collapse)
  show ?thesis using delete_user_cascade [OF ok d] d f by blast
qed

section \<open>Reports\<close>

text \<open>
  C3. An employee who reads by id a report owned by somebody else is claimed to get
  not-found. \<open>get_report\<close> looks the report up by id alone and then checks the owner: in
  the example store employee 2 asking for the report of employee 1 gets 403.
\<close>

theorem get_report_of_other_employee_is_403_not_404:
  "get_current_user_from_db example_db ''0000000000000000000000e2'' = Inr employee_2
   \<and> u_role employee_2 = ''employee''
   \<and> find_one (\<lambda>r. r_id r = ObjectId ''000000000000000000000011'') (reports example_db)
       = Some report_1
   \<and> r_user_id report_1 = u_id employee_1
   \<and> fst (get_report example_db ''0000000000000000000000e2'' ''000000000000000000000011'') =
       Inl (HTTPException 403 ''Acces non autorise a ce rapport'')"
  by code_simp

text \<open>
  C3, as the code has it: an employee who reads by id an existing report owned by
  somebody else gets the authorization error 403, and the store is unchanged;
  not-found is the answer only when no report has that id.
\<close>

theorem get_report_of_other_employee_forbidden:
  assumes "get_current_user_from_db db token_user_id = Inr current_user"
    and "u_role current_user = ''employee''"
    and "ObjectId_is_valid report_id"
    and "find_one (\<lambda>r. r_id r = ObjectId report_id) (reports db) = Some report"
    and "r_user_id report \<noteq> u_id current_user"
  shows "get_report db token_user_id report_id =
           (Inl (HTTPException 403 ''Acces non autorise a ce rapport''), db)"
  using assms by (simp add: get_report_def Let_def)

theorem get_report_of_other_employee_forbidden_witness:
  "get_current_user_from_db example_db ''0000000000000000000000e3'' = Inr employee_3
   \<and> u_role employee_3 = ''employee''
   \<and> ObjectId_is_valid ''000000000000000000000012''
   \<and> find_one (\<lambda>r. r_id r = ObjectId ''000000000000000000000012'') (reports example_db)
       = Some report_2
   \<and> r_user_id report_2 \<noteq> u_id employee_3
   \<and> get_report example_db ''0000000000000000000000e3'' ''000000000000000000000012'' =
       (Inl (HTTPException 403 ''Acces non autorise a ce rapport''), example_db)"
proof -
  have h1: "get_current_user_from_db example_db ''0000000000000000000000e3'' = Inr employee_3"
    by code_simp
  have h2: "u_role employee_3 = ''employee''" by code_simp
  have h3: "ObjectId_is_valid ''000000000000000000000012''" by code_simp
  have h4: "find_one (\<lambda>r. r_id r = ObjectId ''000000000000000000000012'') (reports example_db)
       = Some report_2" by code_simp
  have h5: "r_user_id report_2 \<noteq> u_id employee_3" by code_simp
  show ?thesis
    using get_report_of_other_employee_forbidden [OF h1 h2 h3 h4 h5] h1 h2 h3 h4 h5 by simp
qed

text \<open>
  C5. Creating a weekly report when the same user already has a report for that
  \<open>week_iso\<close> is rejected with the duplicate error (the code signals it with status 400
  and the detail "Un rapport existe deja pour la semaine ..."), nothing is written: the
  store is unchanged and so is the number of reports of that user and week.
\<close>

theorem create_report_duplicate_week_rejected:
  assumes act: "require_active_user db token_user_id = Inr current_user"
    and emp: "u_role current_user = ''employee''"
    and ex: "existing \<in> set (reports db)"
    and own: "r_user_id existing = u_id current_user"
    and wk: "r_week_iso existing = Some (rc_week_iso report_data)"
  shows "create_report builtin_sum db token_user_id new_id now report_data =
           (Inl (HTTPException 400
              (''Un rapport existe deja pour la semaine '' @ rc_week_iso report_data)), db)
       \<and> length (find_all (\<lambda>r. r_user_id r = u_id current_user
                                \<and> r_week_iso r = Some (rc_week_iso report_data))
            (reports (snd (create_report builtin_sum db token_user_id new_id now report_data))))
         = length (find_all (\<lambda>r. r_user_id r = u_id current_user
                                \<and> r_week_iso r = Some (rc_week_iso report_data)) (reports db))"
proof -
  obtain r where "find_one (\<lambda>r. r_user_id r = u_id current_user
        \<and> r_week_iso r = Some (rc_week_iso report_data)) (reports db) = Some r"
    using find_one_exists [OF ex, of "\<lambda>r. r_user_id r = u_id current_user
        \<and> r_week_iso r = Some (rc_week_iso report_data)"] own wk by auto
  then have "create_report builtin_sum db token_user_id new_id now report_data =
           (Inl (HTTPException 400
              (''Un rapport existe deja pour la semaine '' @ rc_week_iso report_data)), db)"
    using act emp by (simp add: create_report_def del: append.simps)
  then show ?thesis by (simp del: append.simps)
qed

theorem create_report_duplicate_week_rejected_witness:
  "require_active_user example_db ''0000000000000000000000e1'' = Inr employee_1
   \<and> u_role employee_1 = ''employee''
   \<and> report_1 \<in> set (reports example_db)
   \<and> r_user_id report_1 = u_id employee_1
   \<and> r_week_iso report_1 = Some ''2024-W01''
   \<and> create_report float_sum example_db ''0000000000000000000000e1''
        ''000000000000000000000014'' 30
        \<lparr>rc_week_iso = ''2024-W01'', rc_tasks = [task ''revue'' 2], rc_difficulties = None,
         rc_remarks = None\<rparr> =
       (Inl (HTTPException 400 ''Un rapport existe deja pour la semaine 2024-W01''), example_db)
   \<and> length (find_all (\<lambda>r. r_user_id r = u_id employee_1 \<and> r_week_iso r = Some ''2024-W01'')
        (reports (snd (create_report float_sum example_db ''0000000000000000000000e1''
           ''000000000000000000000014'' 30
           \<lparr>rc_week_iso = ''2024-W01'', rc_tasks = [task ''revue'' 2], rc_difficulties = None,
            rc_remarks = None\<rparr>)))) = 1"
proof -
  let ?rd = "\<lparr>rc_week_iso = ''2024-W01'', rc_tasks = [task ''revue'' 2], rc_difficulties = None,
         rc_remarks = None\<rparr>"
  have h1: "require_active_user example_db ''0000000000000000000000e1'' = Inr employee_1"
    by code_simp
  have h2: "u_role employee_1 = ''employee''" by code_simp
  have h3: "report_1 \<in> set (reports example_db)" by (simp add: example_db_def)
  have h4: "r_user_id report_1 = u_id employee_1" by code_simp
  have h5: "r_week_iso report_1 = Some (rc_week_iso ?rd)"
    by (simp add: report_1_def weekly_report_def)
  have n: "length (find_all (\<lambda>r. r_user_id r = u_id employee_1 \<and> r_week_iso r = Some ''2024-W01'')
        (reports example_db)) = 1" by code_simp
  show ?thesis
    using create_report_duplicate_week_rejected [OF h1 h2 h3 h4 h5,
        where builtin_sum = float_sum and new_id = "''000000000000000000000014''" and now = 30]
      h1 h2 h3 h4 h5 n by simp
qed



text \<open>
  \<open>create_report\<close> itself never gets as far as the insertion: when the user has no
  report for the week yet, the construction of \<open>ReportInDB\<close> raises on \<open>user_id\<close> and the
  request ends with 500. Whatever the request, the store is left as it was and the
  answer is an error.
\<close>

lemma create_report_never_writes:
  "isl (fst (create_report builtin_sum db tok new_id now report_data))
   \<and> snd (create_report builtin_sum db tok new_id now report_data) = db"
  by (simp add: create_report_def ReportInDB_def PyObjectId_field_def
      split: sum.splits option.splits)

lemma create_report_first_report_of_week_is_500:
  "create_report float_sum example_db ''0000000000000000000000e1'' ''000000000000000000000014'' 30
     \<lparr>rc_week_iso = ''2024-W02'', rc_tasks = [task ''analyse'' 3, task ''redaction'' (9 / 2)],
      rc_difficulties = None, rc_remarks = None\<rparr>
   = (Inl (HTTPException 500 ''Erreur lors de la creation du rapport''), example_db)"
  by code_simp

text \<open>
  C9. The weekly statistics are claimed to report, for each week group, the group's
  \<open>total_hours\<close> divided by the number of distinct owners. The handler rounds the
  quotient to two decimals: ten hours over three employees are reported as the float
  \<open>3.33\<close>, which is neither the float quotient \<open>3.3333333333333335\<close> nor the real
  number \<open>10 / 3\<close>.
\<close>

theorem weekly_stats_average_is_not_the_exact_quotient:
  "get_weekly_stats float_sum example_db ''0000000000000000000000a1'' None None =
    (Inr [\<lparr>ws_week_iso = ''2024-W01'', ws_total_reports = 3, ws_total_hours = Finite 10,
           ws_employees_reported = 3,
           ws_average_hours_per_employee = Finite (1874623344892969 / 562949953421312)\<rparr>],
     example_db)
   \<and> float_div_count (Finite 10) 3 = Finite (7505999378950827 / 2251799813685248)
   \<and> binary64 (333 / 100) = Finite (1874623344892969 / 562949953421312)
   \<and> (1874623344892969 / 562949953421312 :: real) \<noteq> 7505999378950827 / 2251799813685248
   \<and> (1874623344892969 / 562949953421312 :: real) \<noteq> 10 / 3"
proof -
  have g: "get_weekly_stats S example_db ''0000000000000000000000a1'' None None =
    (Inr [\<lparr>ws_week_iso = ''2024-W01'', ws_total_reports = 3,
           ws_total_hours = S [Finite (15 / 2), Finite (3 / 2), Finite 1],
           ws_employees_reported = 3,
           ws_average_hours_per_employee =
             py_round2 (float_div_count (S [Finite (15 / 2), Finite (3 / 2), Finite 1]) 3)\<rparr>],
     example_db)" for S
    by code_simp
  have b: "binary64 (333 / 100) = Finite (1874623344892969 / 562949953421312)"
    by (simp add: binary64_eval)
  show ?thesis
    using g [of float_sum] b
    by (simp add: float_sum_10 float_div_10_by_3 py_round2_10_by_3)
qed

text \<open>
  C9, as the code has it: in a successful answer every entry belongs to a week that has
  at least one matching report and hence at least one owner, so the division is never
  by zero (a week without reports has no entry at all), and its
  \<open>average_hours_per_employee\<close> is the group's \<open>total_hours\<close> divided by the number of
  distinct owners, rounded to two decimals; both the division and the rounding are
  those of binary64 floats.
\<close>

theorem weekly_stats_average_rounded:
  assumes ok: "get_weekly_stats accumulator_sum db tok start_week end_week = (Inr stats, db')"
  shows "\<forall>s\<in>set stats.
           filter (\<lambda>r. week_filter start_week end_week r \<and> r_week_iso r = Some (ws_week_iso s))
             (reports db) \<noteq> []
         \<and> ws_total_reports s =
             length (filter (\<lambda>r. week_filter start_week end_week r
                                 \<and> r_week_iso r = Some (ws_week_iso s)) (reports db))
         \<and> ws_total_hours s =
             accumulator_sum (present_total_hours
               (filter (\<lambda>r. week_filter start_week end_week r
                           \<and> r_week_iso r = Some (ws_week_iso s)) (reports db)))
         \<and> ws_employees_reported s =
             card (r_user_id ` set (filter (\<lambda>r. week_filter start_week end_week r
                                 \<and> r_week_iso r = Some (ws_week_iso s)) (reports db)))
         \<and> 0 < ws_employees_reported s
         \<and> ws_average_hours_per_employee s =
             py_round2 (float_div_count (ws_total_hours s) (ws_employees_reported s))"
proof
  fix s assume s: "s \<in> set stats"
  let ?matched = "filter (week_filter start_week end_week) (reports db)"
  let ?g = "filter (\<lambda>r. week_filter start_week end_week r \<and> r_week_iso r = Some (ws_week_iso s))
             (reports db)"
  from ok have b: "build_weekly_stats
      (rev (sort_key fst (map project_stats (group_by_week accumulator_sum ?matched)))) = Some stats"
    by (auto simp: get_weekly_stats_def Let_def split: sum.splits if_splits option.splits)
  have "\<exists>avg. (Some (ws_week_iso s), ws_total_reports s, ws_total_hours s,
                ws_employees_reported s, avg)
               \<in> set (rev (sort_key fst (map project_stats (group_by_week accumulator_sum ?matched))))
             \<and> ws_average_hours_per_employee s = py_round2 avg"
    using build_weekly_stats_Some [OF b] s by (rule bspec)
  then obtain avg where
    m0: "(Some (ws_week_iso s), ws_total_reports s, ws_total_hours s, ws_employees_reported s, avg)
          \<in> set (rev (sort_key fst (map project_stats (group_by_week accumulator_sum ?matched))))"
    and a: "ws_average_hours_per_employee s = py_round2 avg"
    by (elim exE conjE)
  from m0 have
    m: "(Some (ws_week_iso s), ws_total_reports s, ws_total_hours s, ws_employees_reported s, avg)
          \<in> set (map project_stats (group_by_week accumulator_sum ?matched))"
    by (simp only: set_rev set_sort)
  from m obtain emps where
    g: "(Some (ws_week_iso s), ws_total_reports s, ws_total_hours s, emps)
          \<in> set (group_by_week accumulator_sum ?matched)"
    and e: "ws_employees_reported s = length emps"
    and av: "avg = (if length emps > 0 then float_div_count (ws_total_hours s) (length emps)
                    else Finite 0)"
    by (auto simp: project_stats_def)
  have gg: "filter (\<lambda>r. r_week_iso r = Some (ws_week_iso s)) ?matched = ?g"
    by simp
  note gm = group_by_week_member [OF g, unfolded gg]
  have ne: "?g \<noteq> []"
    using filter_week_nonempty [of "Some (ws_week_iso s)" ?matched] gm gg by simp
  have emps: "emps = remdups (map r_user_id ?g)" using gm by simp
  have card: "length emps = card (r_user_id ` set ?g)"
    unfolding emps by (simp add: length_remdups_card_conv)
  have "r_user_id ` set ?g \<noteq> {}" using ne by (simp only: image_is_empty set_empty simp_thms)
  then have pos: "0 < length emps" unfolding card by (simp add: card_gt_0_iff)
  show "?g \<noteq> []
         \<and> ws_total_reports s = length ?g
         \<and> ws_total_hours s = accumulator_sum (present_total_hours ?g)
         \<and> ws_employees_reported s = card (r_user_id ` set ?g)
         \<and> 0 < ws_employees_reported s
         \<and> ws_average_hours_per_employee s =
             py_round2 (float_div_count (ws_total_hours s) (ws_employees_reported s))"
    using ne gm e card pos a av by simp
qed

theorem weekly_stats_average_rounded_witness:
  "get_weekly_stats float_sum example_db ''0000000000000000000000a1''
      (Some ''2024-W01'') (Some ''2024-W52'') =
    (Inr [\<lparr>ws_week_iso = ''2024-W01'', ws_total_reports = 3, ws_total_hours = Finite 10,
           ws_employees_reported = 3,
           ws_average_hours_per_employee = Finite (1874623344892969 / 562949953421312)\<rparr>],
     example_db)
   \<and> Finite (1874623344892969 / 562949953421312) = py_round2 (float_div_count (Finite 10) 3)
   \<and> card (r_user_id ` set (filter (\<lambda>r. week_filter (Some ''2024-W01'') (Some ''2024-W52'') r
                                 \<and> r_week_iso r = Some ''2024-W01'') (reports example_db))) = 3"
proof -
  have g: "get_weekly_stats S example_db ''0000000000000000000000a1''
      (Some ''2024-W01'') (Some ''2024-W52'') =
    (Inr [\<lparr>ws_week_iso = ''2024-W01'', ws_total_reports = 3,
           ws_total_hours = S [Finite (15 / 2), Finite (3 / 2), Finite 1],
           ws_employees_reported = 3,
           ws_average_hours_per_employee =
             py_round2 (float_div_count (S [Finite (15 / 2), Finite (3 / 2), Finite 1]) 3)\<rparr>],
     example_db)" for S
    by code_simp
  have e: "get_weekly_stats float_sum example_db ''0000000000000000000000a1''
      (Some ''2024-W01'') (Some ''2024-W52'') =
    (Inr [\<lparr>ws_week_iso = ''2024-W01'', ws_total_reports = 3, ws_total_hours = Finite 10,
           ws_employees_reported = 3,
           ws_average_hours_per_employee = Finite (1874623344892969 / 562949953421312)\<rparr>],
     example_db)"
    using g [of float_sum] by (simp add: float_sum_10 float_div_10_by_3 py_round2_10_by_3)
  from weekly_stats_average_rounded [OF e] show ?thesis using e by simp
qed

section \<open>Messages\<close>

text \<open>
  C2. A second mark-read call on a message that is already read is claimed to change
  nothing, \<open>read_at\<close> keeping the value of the first call. \<open>mark_message_as_read\<close> sets
  \<open>read_at\<close> anew without looking at \<open>read_status\<close>: marked at time 100 and again at
  time 200, the message of the example store ends with \<open>read_at = 200\<close>.
\<close>

theorem mark_message_as_read_twice_overwrites_read_at:
  "fst (mark_message_as_read example_db
          ''0000000000000000000000e1'' 100 ''0000000000000000000000d1'')
     = Inr ''Message marque comme lu''
   \<and> map (\<lambda>m. (m_read_status m, m_read_at m))
        (messages (snd (mark_message_as_read example_db
           ''0000000000000000000000e1'' 100 ''0000000000000000000000d1'')))
     = [(True, Some 100), (False, None)]
   \<and> fst (mark_message_as_read
            (snd (mark_message_as_read example_db
                    ''0000000000000000000000e1'' 100 ''0000000000000000000000d1''))
            ''0000000000000000000000e1'' 200 ''0000000000000000000000d1'')
     = Inr ''Message marque comme lu''
   \<and> map (\<lambda>m. (m_read_status m, m_read_at m))
        (messages (snd (mark_message_as_read
           (snd (mark_message_as_read example_db
                   ''0000000000000000000000e1'' 100 ''0000000000000000000000d1''))
           ''0000000000000000000000e1'' 200 ''0000000000000000000000d1'')))
     = [(True, Some 200), (False, None)]"
  by code_simp

text \<open>
  The other path that marks a message read, \<open>get_message\<close>, does test \<open>read_status\<close>:
  viewing the message at time 200 after it was marked at time 100 leaves the store as
  it is.
\<close>

lemma get_message_keeps_read_at:
  "snd (get_message
          (snd (mark_message_as_read example_db
                  ''0000000000000000000000e1'' 100 ''0000000000000000000000d1''))
          ''0000000000000000000000e1'' 200 ''0000000000000000000000d1'')
     = snd (mark_message_as_read example_db
              ''0000000000000000000000e1'' 100 ''0000000000000000000000d1'')"
  by code_simp




text \<open>
  A list whose ids all resolve and are pairwise distinct passes both checks, and then
  the construction of the first \<open>MessageInDB\<close> raises on \<open>sender_id\<close>: the request ends
  with 500. No request makes \<open>broadcast_message\<close> write a message.
\<close>

lemma broadcast_message_resolved_ends_in_500:
  assumes adm: "require_admin db tok = Inr current_user"
    and ids: "distinct (map u_id (users db))"
    and res: "list_all (resolves_to_active_employee db) (mb_receiver_ids message_data)"
    and dis: "distinct (map ObjectId (mb_receiver_ids message_data))"
  shows "broadcast_message db tok new_ids now message_data
         = (Inl (HTTPException 500 ''Erreur lors de l'envoi du message groupe''), db)"
proof -
  let ?R = "mb_receiver_ids message_data"
  have valid: "find_one (\<lambda>receiver_id. \<not> ObjectId_is_valid receiver_id) ?R = None"
    using res by (auto simp: find_one_None_iff list_all_iff resolves_iff)
  have len: "length (find_all (\<lambda>u. u_id u \<in> set (map ObjectId ?R) \<and> u_role u = ''employee''
                             \<and> u_status u = Some ''active'') (users db)) = length ?R"
    by (rule broadcast_count_all [OF ids res dis])
  show ?thesis
    using adm valid len
    by (simp add: broadcast_message_def Let_def build_messages_raises)
qed

lemma broadcast_message_never_writes:
  "snd (broadcast_message db tok new_ids now message_data) = db"
  by (simp add: broadcast_message_def Let_def build_messages_raises
      split: sum.splits option.splits)

lemma broadcast_message_three_employees_is_500:
  "broadcast_message example_db ''0000000000000000000000a1'' example_new_ids 50
     \<lparr>mb_receiver_ids = [''0000000000000000000000e1'', ''0000000000000000000000e2'',
                         ''0000000000000000000000e3''],
      mb_subject = None, mb_content = ''note''\<rparr>
   = (Inl (HTTPException 500 ''Erreur lors de l'envoi du message groupe''), example_db)"
  by code_simp

section \<open>The temporal model\<close>

text \<open>
  C4. For every pair of week strings accepted by \<open>validate_iso_week_format\<close> with
  \<open>start \<le> end\<close>, \<open>get_week_range\<close> is claimed to terminate and to return the finite
  sequence of weeks from start to end. Both \<open>2020-W53\<close> (2020 has 53 ISO weeks) and
  \<open>2021-W01\<close> are accepted and the first is below the second, yet the loop never
  returns on them: the week number is never 52, so the year never advances, and every
  \<open>2020-W\<dots>\<close> stays below \<open>2021-W01\<close>.
\<close>

theorem get_week_range_2020_W53_never_returns: "get_week_range ''2020-W53'' ''2021-W01'' = None"
proof (cases "week_loop ''2020-W53'' ''2021-W01'' []")
  case None
  then show ?thesis by (simp add: get_week_range_def val_2020)
next
  case (Some y)
  have e: "''2020-W53'' = ''2020-W'' @ str_nat 53" by (simp add: str_nat_53)
  have "\<exists>k\<ge>53. ''2020-W53'' = ''2020-W'' @ str_nat k"
    by (rule exI [of _ 53]) (simp only: e [symmetric] order_refl simp_thms)
  with week_loop_diverges_aux [OF Some] show ?thesis by (elim notE) (intro conjI refl)
qed

theorem get_week_range_2020_W53_accepted_and_ordered:
  "validate_iso_week_format ''2020-W53'' \<and> validate_iso_week_format ''2021-W01''
   \<and> ''2020-W53'' \<le> ''2021-W01''
   \<and> get_week_range ''2020-W53'' ''2021-W01'' = None"
  using get_week_range_2020_W53_never_returns by (simp add: val_2020)

text \<open>
  Where the week numbers stay within 01..52 the loop does what the claim describes: it
  rolls over to week 01 of the next year after week 52.
\<close>

lemma get_week_range_rolls_over_after_52:
  "get_week_range ''2024-W52'' ''2025-W01'' = Some (Inr [''2024-W52'', ''2025-W01''])"
  by code_simp

text \<open>
  C1. For every accepted week string \<open>w\<close>, taking the ISO week of the start of
  \<open>iso_week_to_date_range w\<close> is claimed to give \<open>w\<close> again. 1 January 2025 is a
  Wednesday; \<open>iso_week_to_date_range\<close> puts the start of \<open>2025-W01\<close> on the following
  Monday, 6 January 2025 (ordinal 739257), which \<open>date_to_iso_week\<close> names \<open>2025-W02\<close>.
\<close>

theorem iso_week_round_trip_2025_W01_gives_W02:
  "validate_iso_week_format ''2025-W01''
   \<and> map_sum id (\<lambda>(week_start, week_end). (ordinal week_start, date_to_iso_week week_start))
         (iso_week_to_date_range ''2025-W01'') = Inr (739257, ''2025-W02'')"
  by code_simp

text \<open>In a year that begins on a Monday, such as 2024, the round trip does hold.\<close>

lemma iso_week_round_trip_2024_W01:
  "map_sum id (\<lambda>(week_start, week_end). date_to_iso_week week_start)
     (iso_week_to_date_range ''2024-W01'') = Inr ''2024-W01''"
  by code_simp

end
